theory Spec2Isabelle
  imports Complex_Main
begin

section \<open>Python strings and lists\<close>

text \<open>
  A Python \<open>str\<close> is a \<^typ>\<open>string\<close>, one \<^typ>\<open>char\<close> per character. The case
  mappings \<open>str.lower\<close>, \<open>str.upper\<close> and \<open>str.capitalize\<close> are modelled on the
  letters \<open>A\<close> to \<open>Z\<close> and \<open>a\<close> to \<open>z\<close>; every other character is left as it is.
\<close>

definition lower_char :: "char \<Rightarrow> char" where
  "lower_char c =
     (case map_of (zip ''ABCDEFGHIJKLMNOPQRSTUVWXYZ'' ''abcdefghijklmnopqrstuvwxyz'') c of
        Some d \<Rightarrow> d
      | None \<Rightarrow> c)"

definition upper_char :: "char \<Rightarrow> char" where
  "upper_char c =
     (case map_of (zip ''abcdefghijklmnopqrstuvwxyz'' ''ABCDEFGHIJKLMNOPQRSTUVWXYZ'') c of
        Some d \<Rightarrow> d
      | None \<Rightarrow> c)"

definition lower :: "string \<Rightarrow> string" where
  "lower s = map lower_char s"

definition upper :: "string \<Rightarrow> string" where
  "upper s = map upper_char s"

fun capitalize :: "string \<Rightarrow> string" where
  "capitalize [] = []"
| "capitalize (c # cs) = upper_char c # map lower_char cs"

text \<open>\<open>sep.join(parts)\<close>.\<close>

fun join :: "string \<Rightarrow> string list \<Rightarrow> string" where
  "join sep [] = []"
| "join sep [p] = p"
| "join sep (p # q # ps) = p @ sep @ join sep (q # ps)"

text \<open>\<open>needle in haystack\<close> on strings: the needle occurs as a contiguous run.\<close>

fun starts_with :: "string \<Rightarrow> string \<Rightarrow> bool" where
  "starts_with [] s = True"
| "starts_with (p # ps) [] = False"
| "starts_with (p # ps) (c # cs) = (p = c \<and> starts_with ps cs)"

fun contains :: "string \<Rightarrow> string \<Rightarrow> bool" where
  "contains needle [] = (needle = [])"
| "contains needle (c # cs) = (starts_with needle (c # cs) \<or> contains needle cs)"

text \<open>
  The slice \<open>xs[start:]\<close>: a negative start counts from the end of the list and is
  clamped at the front, a start beyond the end gives the empty list. Python parses
  \<open>xs[-k * 2:]\<close> as \<open>xs[((-k) * 2):]\<close>, so for \<open>k = 0\<close> the start is \<open>0\<close> and the
  slice is the whole list.
\<close>

definition slice_from :: "int \<Rightarrow> 'a list \<Rightarrow> 'a list" where
  "slice_from start xs =
     (if start < 0 then drop (nat (max 0 (int (length xs) + start))) xs
      else drop (nat start) xs)"

section \<open>Short-term memory\<close>

text \<open>
  \<open>ShortTermMemory\<close> of \<open>Day3_Memory_and_Context/short_term_memory.py\<close>; the class of
  the same name in \<open>Capstone_Project/capstone_agent.py\<close> has the same \<open>add_message\<close>
  and \<open>get_recent_context\<close>. An entry of the history is the dictionary with the keys
  \<open>role\<close>, \<open>content\<close> and \<open>timestamp\<close>; the timestamp \<open>datetime.now().isoformat()\<close>
  is an input of the model.
\<close>

record message =
  role :: string
  content :: string
  timestamp :: string

record ShortTermMemory =
  max_history :: int
  conversation_history :: "message list"

definition ShortTermMemory_init :: "int \<Rightarrow> ShortTermMemory" where
  "ShortTermMemory_init m = \<lparr>max_history = m, conversation_history = []\<rparr>"

definition add_message :: "string \<Rightarrow> string \<Rightarrow> string \<Rightarrow> ShortTermMemory \<Rightarrow> ShortTermMemory" where
  "add_message r c now s =
     (let h = conversation_history s @ [\<lparr>role = r, content = c, timestamp = now\<rparr>]
      in if int (length h) > max_history s * 2
         then s\<lparr>conversation_history := slice_from (- max_history s * 2) h\<rparr>
         else s\<lparr>conversation_history := h\<rparr>)"

text \<open>A sequence of \<open>add_message\<close> calls, each given by the entry it appends.\<close>

definition add_entry :: "message \<Rightarrow> ShortTermMemory \<Rightarrow> ShortTermMemory" where
  "add_entry e s = add_message (role e) (content e) (timestamp e) s"

definition add_messages :: "message list \<Rightarrow> ShortTermMemory \<Rightarrow> ShortTermMemory" where
  "add_messages es s = fold add_entry es s"

definition format_message :: "message \<Rightarrow> string" where
  "format_message msg = capitalize (role msg) @ '': '' @ content msg"

definition newline :: string where
  "newline = [CHR 0x0A]"

text \<open>
  \<open>get_recent_context\<close> returns the text and, to make the absence of writes a statement,
  the memory it leaves behind.
\<close>

definition get_recent_context :: "int \<Rightarrow> ShortTermMemory \<Rightarrow> string \<times> ShortTermMemory" where
  "get_recent_context num_turns s =
     (if conversation_history s = [] then ('''', s)
      else (let recent = slice_from (- num_turns * 2) (conversation_history s)
            in (join newline (map format_message recent), s)))"

text \<open>The last \<open>k\<close> elements of a list, in their order.\<close>

definition last_n :: "nat \<Rightarrow> 'a list \<Rightarrow> 'a list" where
  "last_n k xs = drop (length xs - k) xs"

section \<open>Numbers as text\<close>

text \<open>\<open>str(n)\<close> for an integer.\<close>

fun digits :: "nat \<Rightarrow> string" where
  "digits n =
     (if n < 10 then [''0123456789'' ! n]
      else digits (n div 10) @ [''0123456789'' ! (n mod 10)])"

declare digits.simps [simp del]

definition str_int :: "int \<Rightarrow> string" where
  "str_int i = (if i < 0 then ''-'' @ digits (nat (- i)) else digits (nat i))"

text \<open>
  A Python \<open>float\<close> is modelled by the real number it stands for, and float arithmetic
  by the arithmetic of the reals: the rounding of sums and quotients is outside the model.
  The format \<open>f"{x:.df}"\<close> rounds the value to \<open>d\<close> decimals, a tie to the even
  neighbour, and writes the sign, the integer part, the point and \<open>d\<close> digits.
\<close>

definition round_half_even :: "real \<Rightarrow> int" where
  "round_half_even y =
     (let f = \<lfloor>y\<rfloor>; r = y - of_int f
      in if r < 1 / 2 then f else if 1 / 2 < r then f + 1 else if even f then f else f + 1)"

definition format_fixed :: "nat \<Rightarrow> real \<Rightarrow> string" where
  "format_fixed d x =
     (let ds = digits (nat (round_half_even (\<bar>x\<bar> * 10 ^ d)));
          padded = replicate (d + 1 - length ds) (CHR ''0'') @ ds;
          whole = take (length padded - d) padded;
          frac = drop (length padded - d) padded
      in (if x < 0 then ''-'' else '''') @ whole @ (if d = 0 then '''' else ''.'' @ frac))"

section \<open>Metrics\<close>

text \<open>
  A \<open>defaultdict(int)\<close> of counters by tag: the keys in the order of their first
  increment, a missing key counting as \<open>0\<close>.
\<close>

type_synonym counters = "(string \<times> int) list"

fun increment :: "string \<Rightarrow> counters \<Rightarrow> counters" where
  "increment k [] = [(k, 1)]"
| "increment k ((k', n) # d) = (if k = k' then (k', n + 1) # d else (k', n) # increment k d)"

definition sum_counters :: "counters \<Rightarrow> int" where
  "sum_counters d = sum_list (map snd d)"

text \<open>The truth value of an \<open>Optional[str]\<close>: \<open>None\<close> and the empty string are false.\<close>

fun truthy :: "string option \<Rightarrow> bool" where
  "truthy None = False"
| "truthy (Some t) = (t \<noteq> [])"

text \<open>
  \<open>MetricsCollector\<close>: the fields that \<open>Day4_Agent_Quality_and_Debugging/observability.py\<close>
  and \<open>Capstone_Project/capstone_agent.py\<close> share, then the field of each.
\<close>

record Metrics =
  requests_total :: int
  requests_success :: int
  requests_error :: int
  total_response_time :: real
  total_tokens :: int
  request_times :: "real list"

record MetricsCollector_day4 = Metrics +
  errors_by_type :: counters

record MetricsCollector_capstone = Metrics +
  tools_used :: counters

definition MetricsCollector_day4_init :: MetricsCollector_day4 where
  "MetricsCollector_day4_init =
     \<lparr>requests_total = 0, requests_success = 0, requests_error = 0, total_response_time = 0,
      total_tokens = 0, request_times = [], errors_by_type = []\<rparr>"

definition MetricsCollector_capstone_init :: MetricsCollector_capstone where
  "MetricsCollector_capstone_init =
     \<lparr>requests_total = 0, requests_success = 0, requests_error = 0, total_response_time = 0,
      total_tokens = 0, request_times = [], tools_used = []\<rparr>"

definition record_request_day4 ::
  "bool \<Rightarrow> real \<Rightarrow> int \<Rightarrow> string option \<Rightarrow> MetricsCollector_day4 \<Rightarrow> MetricsCollector_day4" where
  "record_request_day4 success response_time tokens error_type m =
     (let m1 = m\<lparr>requests_total := requests_total m + 1,
                 total_response_time := total_response_time m + response_time,
                 total_tokens := total_tokens m + tokens,
                 request_times := request_times m @ [response_time]\<rparr>
      in if success then m1\<lparr>requests_success := requests_success m1 + 1\<rparr>
         else (let m2 = m1\<lparr>requests_error := requests_error m1 + 1\<rparr>
               in if truthy error_type
                  then m2\<lparr>errors_by_type := increment (the error_type) (errors_by_type m2)\<rparr>
                  else m2))"

definition record_request_capstone ::
  "bool \<Rightarrow> real \<Rightarrow> int \<Rightarrow> string option \<Rightarrow> MetricsCollector_capstone \<Rightarrow> MetricsCollector_capstone" where
  "record_request_capstone success response_time tokens tool_used m =
     (let m1 = m\<lparr>requests_total := requests_total m + 1,
                 total_response_time := total_response_time m + response_time,
                 total_tokens := total_tokens m + tokens,
                 request_times := request_times m @ [response_time]\<rparr>;
          m2 = (if success then m1\<lparr>requests_success := requests_success m1 + 1\<rparr>
                else m1\<lparr>requests_error := requests_error m1 + 1\<rparr>)
      in if truthy tool_used
         then m2\<lparr>tools_used := increment (the tool_used) (tools_used m2)\<rparr>
         else m2)"

text \<open>One \<open>record_request\<close> call: success, response time, tokens, tag.\<close>

type_synonym sample = "bool \<times> real \<times> int \<times> string option"

definition record_all_day4 :: "sample list \<Rightarrow> MetricsCollector_day4 \<Rightarrow> MetricsCollector_day4" where
  "record_all_day4 calls m = fold (\<lambda>(s, t, k, tag). record_request_day4 s t k tag) calls m"

definition record_all_capstone ::
  "sample list \<Rightarrow> MetricsCollector_capstone \<Rightarrow> MetricsCollector_capstone" where
  "record_all_capstone calls m = fold (\<lambda>(s, t, k, tag). record_request_capstone s t k tag) calls m"

text \<open>
  The dictionary \<open>get_stats\<close> returns: either the one entry
  \<open>{"message": "No requests recorded"}\<close> or the statistics.
\<close>

record Stats =
  total_requests :: int
  success_rate :: string
  average_response_time_seconds :: string
  stats_total_tokens :: int

record Stats_day4 = Stats +
  error_rate :: string
  p50_response_time_seconds :: string
  p95_response_time_seconds :: string
  stats_errors_by_type :: counters

record Stats_capstone = Stats +
  stats_tools_used :: counters

datatype 'a snapshot = No_requests_recorded | Snapshot 'a

text \<open>
  The two percentiles of \<open>get_stats\<close>, as functions of the sorted list. The index
  \<open>int(len * 0.95)\<close> truncates the product; the model takes the product in the reals.
\<close>

definition p50 :: "real list \<Rightarrow> real" where
  "p50 sorted_times =
     (if sorted_times \<noteq> [] then sorted_times ! (length sorted_times div 2) else 0)"

definition p95 :: "real list \<Rightarrow> real" where
  "p95 sorted_times =
     (if sorted_times \<noteq> [] then sorted_times ! nat \<lfloor>real (length sorted_times) * 0.95\<rfloor>
      else 0)"

text \<open>
  \<open>get_stats\<close> returns the snapshot and, to make the absence of writes a statement, the
  collector it leaves behind.
\<close>

definition get_stats_day4 ::
  "MetricsCollector_day4 \<Rightarrow> Stats_day4 snapshot \<times> MetricsCollector_day4" where
  "get_stats_day4 m =
     (let total = requests_total m
      in if total = 0 then (No_requests_recorded, m)
         else (let avg_response_time = total_response_time m / real_of_int total;
                   rate = (real_of_int (requests_success m) / real_of_int total) * 100;
                   sorted_times = sort (request_times m)
               in (Snapshot
                     \<lparr>total_requests = total,
                      success_rate = format_fixed 2 rate @ ''%'',
                      average_response_time_seconds = format_fixed 3 avg_response_time,
                      stats_total_tokens = total_tokens m,
                      error_rate = format_fixed 2 (100 - rate) @ ''%'',
                      p50_response_time_seconds = format_fixed 3 (p50 sorted_times),
                      p95_response_time_seconds = format_fixed 3 (p95 sorted_times),
                      stats_errors_by_type = errors_by_type m\<rparr>, m)))"

definition get_stats_capstone ::
  "MetricsCollector_capstone \<Rightarrow> Stats_capstone snapshot \<times> MetricsCollector_capstone" where
  "get_stats_capstone m =
     (let total = requests_total m
      in if total = 0 then (No_requests_recorded, m)
         else (let avg_time = total_response_time m / real_of_int total;
                   rate = (real_of_int (requests_success m) / real_of_int total) * 100
               in (Snapshot
                     \<lparr>total_requests = total,
                      success_rate = format_fixed 2 rate @ ''%'',
                      average_response_time_seconds = format_fixed 3 avg_time,
                      stats_total_tokens = total_tokens m,
                      stats_tools_used = tools_used m\<rparr>, m)))"

text \<open>The invariant of the counters, for each class.\<close>

definition counters_ok_day4 :: "MetricsCollector_day4 \<Rightarrow> bool" where
  "counters_ok_day4 m \<longleftrightarrow>
     requests_total m = requests_success m + requests_error m
     \<and> 0 \<le> requests_success m
     \<and> sum_counters (errors_by_type m) \<le> requests_error m"

definition counters_ok_capstone :: "MetricsCollector_capstone \<Rightarrow> bool" where
  "counters_ok_capstone m \<longleftrightarrow>
     requests_total m = requests_success m + requests_error m
     \<and> sum_counters (tools_used m) \<le> requests_total m"

section \<open>Long-term memory\<close>

text \<open>
  A Python \<open>dict\<close> whose order of keys matters when it is printed: the keys in the order
  of their first assignment. \<open>map_of d k\<close> reads \<open>d[k]\<close>, \<open>dict_set k v d\<close> is
  \<open>d[k] = v\<close>.
\<close>

fun dict_set :: "'k \<Rightarrow> 'v \<Rightarrow> ('k \<times> 'v) list \<Rightarrow> ('k \<times> 'v) list" where
  "dict_set k v [] = [(k, v)]"
| "dict_set k v ((k', v') # d) = (if k = k' then (k, v) # d else (k', v') # dict_set k v d)"

definition has_key :: "'k \<Rightarrow> ('k \<times> 'v) list \<Rightarrow> bool" where
  "has_key k d = (map_of d k \<noteq> None)"

text \<open>
  \<open>LongTermMemory\<close> of \<open>Day3_Memory_and_Context/long_term_memory.py\<close> and of
  \<open>Capstone_Project/capstone_agent.py\<close>. The document \<open>self.memory\<close> is modelled by its
  entry \<open>users\<close>, the only one the operations below read or write; a user's record has
  the entry \<open>preferences\<close> and, in the Day 3 class, the time stamps \<open>created_at\<close> and
  \<open>last_updated\<close> (\<open>None\<close> for an absent key). Preference values are strings. The
  state is the object together with the file at \<open>storage_path\<close> (the field
  \<open>disk\<close>, \<open>None\<close> when there is no file) and the lines printed.
\<close>

record user_record =
  preferences :: "(string \<times> string) list"
  created_at :: "string option"
  last_updated :: "string option"

record memory_doc =
  users :: "(string \<times> user_record) list"

record LongTermMemory =
  memory :: memory_doc
  disk :: "memory_doc option"
  printed :: "string list"

definition initialize_memory :: memory_doc where
  "initialize_memory = \<lparr>users = []\<rparr>"

text \<open>
  \<open>__init__\<close> with \<open>_load_memory\<close>: the document of the file if there is one and it
  parses, else the empty structure. Every document of type \<^typ>\<open>memory_doc\<close> parses.
\<close>

definition LongTermMemory_init :: "memory_doc option \<Rightarrow> LongTermMemory" where
  "LongTermMemory_init f =
     \<lparr>memory = (case f of Some d \<Rightarrow> d | None \<Rightarrow> initialize_memory), disk = f, printed = []\<rparr>"

text \<open>
  The outcome of writing the file, an input of the model: the write succeeds, or
  \<open>open\<close> or \<open>json.dump\<close> raises an exception with the given text and leaves the given
  file behind.
\<close>

datatype write_outcome = Written | Write_failed string "memory_doc option"

definition save_memory :: "write_outcome \<Rightarrow> LongTermMemory \<Rightarrow> LongTermMemory" where
  "save_memory w st =
     (case w of
        Written \<Rightarrow> st\<lparr>disk := Some (memory st)\<rparr>
      | Write_failed e left \<Rightarrow>
          st\<lparr>disk := left, printed := printed st @ [''Error saving memory: '' @ e]\<rparr>)"

definition set_users :: "(string \<times> user_record) list \<Rightarrow> LongTermMemory \<Rightarrow> LongTermMemory" where
  "set_users u st = st\<lparr>memory := (memory st)\<lparr>users := u\<rparr>\<rparr>"

definition user_preferences :: "string \<Rightarrow> LongTermMemory \<Rightarrow> (string \<times> string) list" where
  "user_preferences user_id st =
     (case map_of (users (memory st)) user_id of Some r \<Rightarrow> preferences r | None \<Rightarrow> [])"

text \<open>Day 3: \<open>get_user_preferences\<close>, with the time \<open>now\<close> of the call.\<close>

definition get_user_preferences_day3 ::
  "string \<Rightarrow> string \<Rightarrow> LongTermMemory \<Rightarrow> (string \<times> string) list \<times> LongTermMemory" where
  "get_user_preferences_day3 now user_id st =
     (let st1 = (if \<not> has_key user_id (users (memory st))
                 then set_users (dict_set user_id
                        \<lparr>preferences = [], created_at = Some now, last_updated = None\<rparr>
                        (users (memory st))) st
                 else st)
      in (user_preferences user_id st1, st1))"

text \<open>
  Day 3: \<open>save_user_preference\<close>, with the times of its two \<open>datetime.now()\<close> calls and
  the outcome of the write.
\<close>

definition save_user_preference_day3 ::
  "string \<Rightarrow> string \<Rightarrow> write_outcome \<Rightarrow> string \<Rightarrow> string \<Rightarrow> string \<Rightarrow> LongTermMemory
    \<Rightarrow> LongTermMemory" where
  "save_user_preference_day3 now1 now2 w user_id key val st =
     (let u1 = (if \<not> has_key user_id (users (memory st))
                then dict_set user_id
                       \<lparr>preferences = [], created_at = Some now1, last_updated = None\<rparr>
                       (users (memory st))
                else users (memory st));
          u2 = (case map_of u1 user_id of
                  Some r \<Rightarrow>
                    dict_set user_id
                      (r\<lparr>preferences := dict_set key val (preferences r),
                         last_updated := Some now2\<rparr>) u1
                | None \<Rightarrow> u1)
      in save_memory w (set_users u2 st))"

text \<open>The capstone class: a new record has the entry \<open>preferences\<close> only.\<close>

definition get_user_preferences_capstone ::
  "string \<Rightarrow> LongTermMemory \<Rightarrow> (string \<times> string) list \<times> LongTermMemory" where
  "get_user_preferences_capstone user_id st =
     (let st1 = (if \<not> has_key user_id (users (memory st))
                 then set_users (dict_set user_id
                        \<lparr>preferences = [], created_at = None, last_updated = None\<rparr>
                        (users (memory st))) st
                 else st)
      in (user_preferences user_id st1, st1))"

definition save_preference_capstone ::
  "write_outcome \<Rightarrow> string \<Rightarrow> string \<Rightarrow> string \<Rightarrow> LongTermMemory \<Rightarrow> LongTermMemory" where
  "save_preference_capstone w user_id key val st =
     (let u1 = (if \<not> has_key user_id (users (memory st))
                then dict_set user_id
                       \<lparr>preferences = [], created_at = None, last_updated = None\<rparr>
                       (users (memory st))
                else users (memory st));
          u2 = (case map_of u1 user_id of
                  Some r \<Rightarrow> dict_set user_id (r\<lparr>preferences := dict_set key val (preferences r)\<rparr>) u1
                | None \<Rightarrow> u1)
      in save_memory w (set_users u2 st))"

section \<open>Preference extraction\<close>

text \<open>\<open>AgentWithLongTermMemory._extract_preference\<close> of Day 3.\<close>

definition colors :: "string list" where
  "colors = [''red'', ''blue'', ''green'', ''yellow'', ''purple'', ''orange'']"

definition extract_preference_day3 :: "string \<Rightarrow> (string \<times> string) option" where
  "extract_preference_day3 message =
     (let message_lower = lower message
      in if contains ''i like'' message_lower \<or> contains ''i prefer'' message_lower
            \<or> contains ''my favorite'' message_lower
         then (if contains ''programming'' message_lower \<or> contains ''language'' message_lower
               then (if contains ''python'' message_lower
                     then Some (''favorite_language'', ''Python'')
                     else if contains ''javascript'' message_lower
                     then Some (''favorite_language'', ''JavaScript'')
                     else None)
               else if contains ''color'' message_lower
               then (case find (\<lambda>color. contains color message_lower) colors of
                       Some color \<Rightarrow> Some (''favorite_color'', color)
                     | None \<Rightarrow> None)
               else None)
         else None)"

text \<open>\<open>CapstoneAgent._extract_preference\<close>.\<close>

definition extract_preference_capstone :: "string \<Rightarrow> (string \<times> string) option" where
  "extract_preference_capstone message =
     (let message_lower = lower message
      in if contains ''i like'' message_lower \<or> contains ''i prefer'' message_lower
         then (if contains ''python'' message_lower
               then Some (''favorite_language'', ''Python'')
               else if contains ''javascript'' message_lower
               then Some (''favorite_language'', ''JavaScript'')
               else None)
         else None)"

section \<open>Tools\<close>

text \<open>
  The characters that \<open>\s\<close> matches and \<open>str.split()\<close> splits at, among the first 256:
  tab to carriage return, the four separators \<open>0x1C\<close> to \<open>0x1F\<close>, the space, \<open>0x85\<close>
  and \<open>0xA0\<close>.
\<close>

definition is_space :: "char \<Rightarrow> bool" where
  "is_space c = ((of_char c :: nat) \<in> {9, 10, 11, 12, 13, 28, 29, 30, 31, 32, 133, 160})"

text \<open>\<open>len(t.split())\<close>: the number of maximal runs of characters that are not spaces.\<close>

fun count_runs :: "bool \<Rightarrow> string \<Rightarrow> nat" where
  "count_runs in_word [] = 0"
| "count_runs in_word (c # cs) =
     (if is_space c then count_runs False cs
      else if in_word then count_runs True cs
      else Suc (count_runs True cs))"

definition count_words :: "string \<Rightarrow> nat" where
  "count_words t = count_runs False t"

subsection \<open>The calculator\<close>

text \<open>\<open>re.sub(r'[^0-9+\-*/().\s]', '', expression)\<close>.\<close>

definition allowed_char :: "char \<Rightarrow> bool" where
  "allowed_char c = (c \<in> set ''0123456789+-*/().'' \<or> is_space c)"

definition sanitize :: "string \<Rightarrow> string" where
  "sanitize expression = filter allowed_char expression"

text \<open>
  The builtin \<open>eval\<close> is not code of the repository. Its model computes the outcome on a
  fragment of the expressions that the sanitized text can hold: at most 100 characters,
  each a digit, \<open>+\<close>, \<open>-\<close>, \<open>*\<close>, \<open>/\<close>, a parenthesis or a blank, with no power
  operator \<open>**\<close>, no call \<open>f(x)\<close> and no empty tuple \<open>()\<close>. On the fragment a value is
  an integer of at most 100 digits or a float, and the exceptions are \<open>SyntaxError\<close>,
  raised before anything is evaluated, and \<open>ZeroDivisionError\<close>, raised by a division
  \<open>/\<close> or \<open>//\<close> whose divisor is the integer \<open>0\<close>. The model does not compute a float:
  where the value is a float, or a divisor is one, the outcome is an input of the model,
  as it is outside the fragment (float literals, powers, calls) and as is the text
  \<open>str(e)\<close> of an exception.
\<close>

definition is_digit :: "char \<Rightarrow> bool" where
  "is_digit c = (c \<in> set ''0123456789'')"

datatype token = NUM string | PLUS | MINUS | STAR | SLASH | DSLASH | LP | RP

text \<open>
  The tokens of the text, \<open>None\<close> outside the fragment. \<open>cur\<close> is the run of digits
  being read.
\<close>

definition flush :: "string \<Rightarrow> token list" where
  "flush cur = (if cur = [] then [] else [NUM cur])"

fun tokenize :: "string \<Rightarrow> string \<Rightarrow> token list option" where
  "tokenize cur [] = Some (flush cur)"
| "tokenize cur (c # cs) =
     (if is_digit c then tokenize (cur @ [c]) cs
      else if c = CHR '' '' then map_option ((@) (flush cur)) (tokenize [] cs)
      else if c = CHR ''+'' then map_option ((@) (flush cur @ [PLUS])) (tokenize [] cs)
      else if c = CHR ''-'' then map_option ((@) (flush cur @ [MINUS])) (tokenize [] cs)
      else if c = CHR ''('' then map_option ((@) (flush cur @ [LP])) (tokenize [] cs)
      else if c = CHR '')'' then map_option ((@) (flush cur @ [RP])) (tokenize [] cs)
      else if c = CHR ''*'' then
        (case cs of
           d # ds \<Rightarrow>
             if d = CHR ''*'' then None
             else map_option ((@) (flush cur @ [STAR])) (tokenize [] cs)
         | [] \<Rightarrow> Some (flush cur @ [STAR]))
      else if c = CHR ''/'' then
        (case cs of
           d # ds \<Rightarrow>
             if d = CHR ''/'' then map_option ((@) (flush cur @ [DSLASH])) (tokenize [] ds)
             else map_option ((@) (flush cur @ [SLASH])) (tokenize [] cs)
         | [] \<Rightarrow> Some (flush cur @ [SLASH]))
      else None)"

text \<open>A call or an empty tuple: an opening parenthesis after an operand, or \<open>()\<close>.\<close>

fun has_call_or_tuple :: "token list \<Rightarrow> bool" where
  "has_call_or_tuple (NUM n # LP # ts) = True"
| "has_call_or_tuple (RP # LP # ts) = True"
| "has_call_or_tuple (LP # RP # ts) = True"
| "has_call_or_tuple (t # ts) = has_call_or_tuple ts"
| "has_call_or_tuple [] = False"

text \<open>
  A decimal literal: a run of zeros, or digits that do not start with a zero.
\<close>

definition digit_value :: "char \<Rightarrow> int" where
  "digit_value d = int (of_char d) - 48"

definition literal_value :: "string \<Rightarrow> int option" where
  "literal_value ds =
     (if ds \<noteq> [] \<and> (hd ds \<noteq> CHR ''0'' \<or> list_all (\<lambda>d. d = CHR ''0'') ds)
      then Some (foldl (\<lambda>a d. 10 * a + digit_value d) 0 ds)
      else None)"

text \<open>
  A value: an integer, or a float, which the model does not compute. The sum and the
  product of two integers are integers, every other sum and product is a float.
\<close>

datatype num = IntV int | FloatV

fun scale :: "int \<Rightarrow> num \<Rightarrow> num" where
  "scale sg (IntV v) = IntV (sg * v)"
| "scale sg FloatV = FloatV"

fun num_add :: "num \<Rightarrow> num \<Rightarrow> num" where
  "num_add (IntV a) (IntV b) = IntV (a + b)"
| "num_add a b = FloatV"

fun num_mul :: "num \<Rightarrow> num \<Rightarrow> num" where
  "num_mul (IntV a) (IntV b) = IntV (a * b)"
| "num_mul a b = FloatV"

text \<open>
  What ends the computation of the value: a division by the integer \<open>0\<close>, which raises
  \<open>ZeroDivisionError\<close>, or a division by a float, of which the model does not know
  whether it is zero.
\<close>

datatype event = Zero_divisor | Float_divisor

datatype binop = Times | Divide | Floor_divide

text \<open>
  \<open>p op v\<close>. The quotient \<open>/\<close> of two numbers is a float; the quotient \<open>//\<close> of two
  integers is the integer rounded down, as \<open>div\<close> is.
\<close>

fun apply_op :: "binop \<Rightarrow> num \<Rightarrow> num \<Rightarrow> event + num" where
  "apply_op Times p v = Inr (num_mul p v)"
| "apply_op Divide p (IntV d) = (if d = 0 then Inl Zero_divisor else Inr FloatV)"
| "apply_op Divide p FloatV = Inl Float_divisor"
| "apply_op Floor_divide (IntV a) (IntV d) =
     (if d = 0 then Inl Zero_divisor else Inr (IntV (a div d)))"
| "apply_op Floor_divide FloatV (IntV d) = (if d = 0 then Inl Zero_divisor else Inr FloatV)"
| "apply_op Floor_divide p FloatV = Inl Float_divisor"

text \<open>
  The evaluator reads the tokens from the left and keeps one frame for every open
  parenthesis: the sum of the finished terms, the sign of the term being read, the
  product of its factors read so far, the operator that waits for its right operand,
  whether an operand must follow, and the sign that the unary operators read since the
  last operand give to the next one. It applies every operator when its right operand
  is complete, which is the order in which Python evaluates. Beside the frames it keeps
  the first event; after an event it goes on reading, since a syntax error further to
  the right is raised before anything is evaluated.
\<close>

record frame =
  acc :: num
  term_sign :: int
  product :: "num option"
  pending :: binop
  expecting :: bool
  unary_sign :: int

definition new_frame :: frame where
  "new_frame =
     \<lparr>acc = IntV 0, term_sign = 1, product = None, pending = Times, expecting = True,
      unary_sign = 1\<rparr>"

definition operand :: "num \<Rightarrow> event option \<times> frame \<Rightarrow> event option \<times> frame" where
  "operand v = (\<lambda>(ev, f).
     (case product f of
        None \<Rightarrow>
          (ev, f\<lparr>product := Some (scale (unary_sign f) v), expecting := False, unary_sign := 1\<rparr>)
      | Some p \<Rightarrow>
          (case apply_op (pending f) p (scale (unary_sign f) v) of
             Inr r \<Rightarrow> (ev, f\<lparr>product := Some r, expecting := False, unary_sign := 1\<rparr>)
           | Inl e \<Rightarrow>
               ((case ev of None \<Rightarrow> Some e | Some e' \<Rightarrow> Some e'),
                f\<lparr>product := Some FloatV, expecting := False, unary_sign := 1\<rparr>))))"

definition frame_value :: "frame \<Rightarrow> num" where
  "frame_value f =
     num_add (acc f) (scale (term_sign f) (case product f of Some p \<Rightarrow> p | None \<Rightarrow> IntV 0))"

definition next_term :: "int \<Rightarrow> frame \<Rightarrow> frame" where
  "next_term sg f = f\<lparr>acc := frame_value f, term_sign := sg, product := None, expecting := True\<rparr>"

definition next_factor :: "binop \<Rightarrow> frame \<Rightarrow> frame" where
  "next_factor bop f = f\<lparr>pending := bop, expecting := True\<rparr>"

text \<open>
  The first event and the value of the tokens, \<open>None\<close> for a syntax error. The first
  argument is the first event so far, the second the frames, the innermost first.
\<close>

fun run :: "event option \<Rightarrow> frame list \<Rightarrow> token list \<Rightarrow> (event option \<times> num) option" where
  "run ev [] ts = None"
| "run ev [f] [] = (if expecting f then None else Some (ev, frame_value f))"
| "run ev (f # g # st) [] = None"
| "run ev (f # st) (NUM ds # ts) =
     (if expecting f
      then (case literal_value ds of
              Some v \<Rightarrow> (case operand (IntV v) (ev, f) of (ev', f') \<Rightarrow> run ev' (f' # st) ts)
            | None \<Rightarrow> None)
      else None)"
| "run ev (f # st) (PLUS # ts) =
     (if expecting f then run ev (f # st) ts else run ev (next_term 1 f # st) ts)"
| "run ev (f # st) (MINUS # ts) =
     (if expecting f then run ev (f\<lparr>unary_sign := - unary_sign f\<rparr> # st) ts
      else run ev (next_term (- 1) f # st) ts)"
| "run ev (f # st) (STAR # ts) =
     (if expecting f then None else run ev (next_factor Times f # st) ts)"
| "run ev (f # st) (SLASH # ts) =
     (if expecting f then None else run ev (next_factor Divide f # st) ts)"
| "run ev (f # st) (DSLASH # ts) =
     (if expecting f then None else run ev (next_factor Floor_divide f # st) ts)"
| "run ev (f # st) (LP # ts) =
     (if expecting f then run ev (new_frame # f # st) ts else None)"
| "run ev (f # st) (RP # ts) =
     (if expecting f then None
      else (case st of
              g # st' \<Rightarrow>
                (case operand (frame_value f) (ev, g) of (ev', g') \<Rightarrow> run ev' (g' # st') ts)
            | [] \<Rightarrow> None))"

datatype fragment_result = Outside | Syntax_error | Zero_division | Value int

definition eval_fragment :: "string \<Rightarrow> fragment_result" where
  "eval_fragment s =
     (if length s > 100 then Outside
      else (case tokenize [] s of
              None \<Rightarrow> Outside
            | Some ts \<Rightarrow>
                if has_call_or_tuple ts then Outside
                else (case run None [new_frame] ts of
                        None \<Rightarrow> Syntax_error
                      | Some (Some Zero_divisor, v) \<Rightarrow> Zero_division
                      | Some (Some Float_divisor, v) \<Rightarrow> Outside
                      | Some (None, IntV v) \<Rightarrow> Value v
                      | Some (None, FloatV) \<Rightarrow> Outside)))"

text \<open>
  What \<open>eval\<close> does where the model does not compute the outcome, \<open>Inl\<close> the text
  \<open>str(e)\<close> of the exception raised and \<open>Inr\<close> the text of the value, and the text of
  the \<open>SyntaxError\<close> or \<open>ZeroDivisionError\<close> that the model computes.
\<close>

record builtin_eval =
  outside :: "string \<Rightarrow> string + string"
  error_text :: "string \<Rightarrow> string"

definition py_eval :: "builtin_eval \<Rightarrow> string \<Rightarrow> string + string" where
  "py_eval E s =
     (case eval_fragment s of
        Outside \<Rightarrow> outside E s
      | Syntax_error \<Rightarrow> Inl (error_text E s)
      | Zero_division \<Rightarrow> Inl (error_text E s)
      | Value v \<Rightarrow> Inr (str_int v))"

text \<open>\<open>CalculatorTool.execute\<close>: every exception of the \<open>try\<close> block becomes a text.\<close>

definition calculator_execute :: "builtin_eval \<Rightarrow> string \<Rightarrow> string" where
  "calculator_execute E expression =
     (case py_eval E (sanitize expression) of
        Inr result \<Rightarrow> ''Result: '' @ result
      | Inl e \<Rightarrow> ''Error: '' @ e)"

subsection \<open>The text processor\<close>

definition text_processor_execute :: "string \<Rightarrow> string \<Rightarrow> string" where
  "text_processor_execute t operation =
     (if operation = ''count_words'' then ''Word count: '' @ str_int (int (count_words t))
      else if operation = ''count_chars'' then ''Character count: '' @ str_int (int (length t))
      else if operation = ''reverse'' then ''Reversed: '' @ rev t
      else if operation = ''uppercase'' then ''Uppercase: '' @ upper t
      else if operation = ''lowercase'' then ''Lowercase: '' @ lower t
      else ''Unknown operation: '' @ operation)"

subsection \<open>The choice of the tool\<close>

text \<open>The tool chosen, with its parameters.\<close>

datatype tool_call = Calculator string | Text_processor string string

fun tool_name :: "tool_call \<Rightarrow> string" where
  "tool_name (Calculator expression) = ''calculator''"
| "tool_name (Text_processor t operation) = ''text_processor''"

fun run_tool :: "builtin_eval \<Rightarrow> tool_call \<Rightarrow> string" where
  "run_tool E (Calculator expression) = calculator_execute E expression"
| "run_tool E (Text_processor t operation) = text_processor_execute t operation"

definition select_tool :: "string \<Rightarrow> tool_call option" where
  "select_tool query =
     (let query_lower = lower query
      in if list_ex (\<lambda>kw. contains kw query_lower)
              [''calculate'', ''compute'', ''math'', ''add'', ''multiply'']
         then Some (Calculator query)
         else if list_ex (\<lambda>kw. contains kw query_lower)
              [''count'', ''reverse'', ''uppercase'', ''lowercase'']
         then Some (Text_processor query
                (if contains ''characters'' query_lower then ''count_chars''
                 else if contains ''reverse'' query_lower then ''reverse''
                 else if contains ''uppercase'' query_lower then ''uppercase''
                 else if contains ''lowercase'' query_lower then ''lowercase''
                 else ''count_words''))
         else None)"

section \<open>The capstone agent\<close>

text \<open>
  What one call of \<open>CapstoneAgent.chat\<close> takes from outside: the builtin \<open>eval\<close> of the
  calculator, the request id \<open>uuid.uuid4()\<close>, the clock at the start and at the moment
  the metrics are recorded, the time stamps of the two history entries, the outcome of
  writing the memory file, and the completion call. \<open>generate_content prompt\<close> is
  \<open>Inr\<close> the text \<open>response.text\<close>, or \<open>Inl\<close> the text \<open>str(e)\<close> of the exception that
  \<open>self.model.generate_content(prompt)\<close> or \<open>response.text\<close> raises. The lines that
  the logger writes are not part of the model.
\<close>

record chat_env =
  evaluator :: builtin_eval
  request_uuid :: string
  start_time :: real
  record_time :: real
  user_timestamp :: string
  assistant_timestamp :: string
  write_result :: write_outcome
  generate_content :: "string \<Rightarrow> string + string"

record CapstoneAgent =
  short_term_memory :: ShortTermMemory
  long_term_memory :: LongTermMemory
  user_id :: string
  metrics :: MetricsCollector_capstone
  request_id :: "string option"

definition CapstoneAgent_init :: "string \<Rightarrow> memory_doc option \<Rightarrow> CapstoneAgent" where
  "CapstoneAgent_init uid f =
     \<lparr>short_term_memory = ShortTermMemory_init 10,
      long_term_memory = LongTermMemory_init f,
      user_id = uid,
      metrics = MetricsCollector_capstone_init,
      request_id = None\<rparr>"

definition build_prompt ::
  "(string \<times> string) list \<Rightarrow> string \<Rightarrow> string option \<Rightarrow> string \<Rightarrow> string" where
  "build_prompt prefs context tool_result message =
     (let prompt_parts =
        (if prefs \<noteq> []
         then [''User preferences: '' @ join '', '' (map (\<lambda>(k, v). k @ '': '' @ v) prefs)]
         else [])
        @ (if context \<noteq> [] then [''Recent conversation:'' @ newline @ context] else [])
        @ (if truthy tool_result then [''Tool result: '' @ the tool_result] else [])
        @ [''User message: '' @ message]
      in join (newline @ newline) prompt_parts)"

text \<open>
  The \<open>try\<close> block of \<open>chat\<close>: \<open>Inr\<close> the text returned, or \<open>Inl\<close> the text of the
  exception raised, each with the agent as the block leaves it.
\<close>

definition chat_try :: "chat_env \<Rightarrow> string \<Rightarrow> CapstoneAgent \<Rightarrow> (string + string) \<times> CapstoneAgent" where
  "chat_try env message a =
     (let ltm1 = (case extract_preference_capstone message of
                    Some (key, val) \<Rightarrow>
                      save_preference_capstone (write_result env) (user_id a) key val
                        (long_term_memory a)
                  | None \<Rightarrow> long_term_memory a);
          stm1 = add_message ''user'' message (user_timestamp env) (short_term_memory a);
          (context, stm2) = get_recent_context 3 stm1;
          (prefs, ltm2) = get_user_preferences_capstone (user_id a) ltm1;
          tool = select_tool message;
          tool_result = map_option (run_tool (evaluator env)) tool;
          m1 = (case tool of
                  Some t \<Rightarrow> record_request_capstone True 0 0 (Some (tool_name t)) (metrics a)
                | None \<Rightarrow> metrics a);
          prompt = build_prompt prefs context tool_result message;
          a1 = a\<lparr>short_term_memory := stm2, long_term_memory := ltm2, metrics := m1\<rparr>
      in case generate_content env prompt of
           Inl e \<Rightarrow> (Inl e, a1)
         | Inr response_text \<Rightarrow>
             (let stm3 = add_message ''assistant'' response_text (assistant_timestamp env) stm2;
                  response_time = record_time env - start_time env;
                  estimated_tokens = int (count_words message) + int (count_words response_text);
                  m2 = record_request_capstone True response_time estimated_tokens
                         (map_option tool_name tool) m1
              in (Inr response_text, a1\<lparr>short_term_memory := stm3, metrics := m2\<rparr>)))"

definition chat :: "chat_env \<Rightarrow> string \<Rightarrow> CapstoneAgent \<Rightarrow> string \<times> CapstoneAgent" where
  "chat env message a =
     (case chat_try env message (a\<lparr>request_id := Some (request_uuid env)\<rparr>) of
        (Inr response_text, a') \<Rightarrow> (response_text, a')
      | (Inl e, a') \<Rightarrow>
          (''Error: '' @ e,
           a'\<lparr>metrics := record_request_capstone False (record_time env - start_time env) 0 None
                            (metrics a')\<rparr>))"

section \<open>The observable agent\<close>

text \<open>
  \<open>TraceSpan\<close>, \<open>Tracer\<close> and \<open>ObservableAgent\<close> of
  \<open>Day4_Agent_Quality_and_Debugging/observability.py\<close>. A tag or a field of a log entry
  holds a text, an integer, a truth value or a float.
\<close>

datatype py_value = PyStr string | PyInt int | PyBool bool | PyFloat real

record log_entry =
  log_message :: string
  log_timestamp :: string
  log_fields :: "(string \<times> py_value) list"

record TraceSpan =
  span_id :: string
  parent_id :: "string option"
  span_name :: string
  span_start_time :: real
  span_end_time :: "real option"
  tags :: "(string \<times> py_value) list"
  logs :: "log_entry list"

record span_dict = TraceSpan +
  duration_seconds :: real

record trace =
  trace_id :: string
  spans :: "span_dict list"
  trace_timestamp :: string

definition TraceSpan_init :: "string \<Rightarrow> string \<Rightarrow> real \<Rightarrow> TraceSpan" where
  "TraceSpan_init nm uuid now =
     \<lparr>span_id = uuid, parent_id = None, span_name = nm, span_start_time = now,
      span_end_time = None, tags = [], logs = []\<rparr>"

definition finish :: "real \<Rightarrow> TraceSpan \<Rightarrow> TraceSpan" where
  "finish now sp = sp\<lparr>span_end_time := Some now\<rparr>"

definition add_tag :: "string \<Rightarrow> py_value \<Rightarrow> TraceSpan \<Rightarrow> TraceSpan" where
  "add_tag key val sp = sp\<lparr>tags := dict_set key val (tags sp)\<rparr>"

definition add_log :: "string \<Rightarrow> string \<Rightarrow> (string \<times> py_value) list \<Rightarrow> TraceSpan \<Rightarrow> TraceSpan" where
  "add_log msg now kwargs sp =
     sp\<lparr>logs := logs sp @ [\<lparr>log_message = msg, log_timestamp = now, log_fields = kwargs\<rparr>]\<rparr>"

text \<open>\<open>duration\<close>: an end time of \<open>None\<close> or \<open>0.0\<close> is false, and the clock is read.\<close>

definition duration :: "real \<Rightarrow> TraceSpan \<Rightarrow> real" where
  "duration now sp =
     (case span_end_time sp of
        Some e \<Rightarrow> if e \<noteq> 0 then e - span_start_time sp else now - span_start_time sp
      | None \<Rightarrow> now - span_start_time sp)"

definition to_dict :: "real \<Rightarrow> TraceSpan \<Rightarrow> span_dict" where
  "to_dict now sp =
     \<lparr>span_id = span_id sp, parent_id = parent_id sp, span_name = span_name sp,
      span_start_time = span_start_time sp, span_end_time = span_end_time sp,
      tags = tags sp, logs = logs sp, duration_seconds = duration now sp\<rparr>"

text \<open>
  What one call of \<open>ObservableAgent.chat\<close> takes from outside: three ids, the clock at
  each reading, the time stamps of the log entries and of the trace, and the completion
  call, which gives the text or the class name and the text of the exception.
\<close>

record observable_env =
  obs_request_uuid :: string
  span_uuid :: string
  trace_uuid :: string
  span_clock :: real
  call_start :: real
  call_end :: real
  fail_clock :: real
  finish_clock :: real
  duration_clock :: real
  log_timestamp1 :: string
  log_timestamp2 :: string
  trace_now :: string
  obs_generate_content :: "string \<Rightarrow> (string \<times> string) + string"

record ObservableAgent =
  obs_metrics :: MetricsCollector_day4
  traces :: "trace list"
  obs_request_id :: "string option"

definition ObservableAgent_init :: ObservableAgent where
  "ObservableAgent_init =
     \<lparr>obs_metrics = MetricsCollector_day4_init, traces = [], obs_request_id = None\<rparr>"

definition start_trace :: "observable_env \<Rightarrow> string \<Rightarrow> string \<Rightarrow> TraceSpan" where
  "start_trace env operation rid =
     add_tag ''request_id'' (PyStr rid) (TraceSpan_init operation (span_uuid env) (span_clock env))"

definition finish_trace :: "observable_env \<Rightarrow> TraceSpan \<Rightarrow> string option \<Rightarrow> trace list \<Rightarrow> trace list" where
  "finish_trace env sp tid ts =
     ts @ [\<lparr>trace_id = (if truthy tid then the tid else trace_uuid env),
            spans = [to_dict (duration_clock env) (finish (finish_clock env) sp)],
            trace_timestamp = trace_now env\<rparr>]"

definition observable_chat ::
  "observable_env \<Rightarrow> string \<Rightarrow> string option \<Rightarrow> ObservableAgent \<Rightarrow> string \<times> ObservableAgent" where
  "observable_chat env message uid a =
     (let rid = obs_request_uuid env;
          sp0 = start_trace env ''agent.chat'' rid;
          sp1 = add_tag ''user_id'' (PyStr (if truthy uid then the uid else ''anonymous'')) sp0;
          sp2 = add_tag ''message_length'' (PyInt (int (length message))) sp1;
          sp3 = add_log ''Calling LLM'' (log_timestamp1 env) [(''model'', PyStr ''gemini-pro'')] sp2
      in case obs_generate_content env message of
           Inr response_text \<Rightarrow>
             (let response_time = call_end env - call_start env;
                  estimated_tokens = int (count_words message) + int (count_words response_text);
                  m = record_request_day4 True response_time estimated_tokens None (obs_metrics a);
                  sp4 = add_tag ''success'' (PyBool True) sp3;
                  sp5 = add_tag ''response_length'' (PyInt (int (length response_text))) sp4;
                  sp6 = add_tag ''response_time_seconds'' (PyFloat response_time) sp5;
                  sp7 = add_log ''LLM call completed'' (log_timestamp2 env)
                          [(''tokens'', PyInt estimated_tokens)] sp6
              in (response_text,
                  a\<lparr>obs_metrics := m, traces := finish_trace env sp7 (Some rid) (traces a),
                    obs_request_id := Some rid\<rparr>))
         | Inl (error_type, e) \<Rightarrow>
             (let m = record_request_day4 False (fail_clock env - call_start env) 0
                        (Some error_type) (obs_metrics a);
                  sp4 = add_tag ''success'' (PyBool False) sp3;
                  sp5 = add_tag ''error'' (PyStr e) sp4;
                  sp6 = add_tag ''error_type'' (PyStr error_type) sp5;
                  sp7 = add_log ''Error occurred'' (log_timestamp2 env) [(''error'', PyStr e)] sp6
              in (''Error: '' @ e,
                  a\<lparr>obs_metrics := m, traces := finish_trace env sp7 (Some rid) (traces a),
                    obs_request_id := Some rid\<rparr>)))"

section \<open>Properties of the short-term memory\<close>

lemma slice_from_negative:
  "0 < k \<Longrightarrow> slice_from (- int k) xs = last_n k xs"
  by (auto simp: slice_from_def last_n_def nat_diff_distrib' intro: arg_cong2 [where f = drop])

lemma length_last_n: "length (last_n k xs) = min k (length xs)"
  by (simp add: last_n_def)

lemma last_n_snoc:
  "0 < k \<Longrightarrow> last_n k (last_n k xs @ [x]) = last_n k (xs @ [x])"
  by (cases "length xs \<le> k") (auto simp: last_n_def Suc_diff_le)

lemma last_n_all: "length xs \<le> k \<Longrightarrow> last_n k xs = xs"
  by (simp add: last_n_def)

lemma add_entry_last_n:
  assumes "1 \<le> max_history s" and "conversation_history s = last_n (nat (2 * max_history s)) es"
  shows "conversation_history (add_entry e s) = last_n (nat (2 * max_history s)) (es @ [e])
    \<and> max_history (add_entry e s) = max_history s"
proof -
  define k where "k = nat (2 * max_history s)"
  have k: "0 < k" "int k = max_history s * 2"
    using assms(1) by (simp_all add: k_def)
  have e: "\<lparr>role = role e, content = content e, timestamp = timestamp e\<rparr> = e"
    by simp
  let ?h = "last_n k es @ [e]"
  show ?thesis
  proof (cases "int (length ?h) > max_history s * 2")
    case True
    have "slice_from (- max_history s * 2) ?h = last_n k ?h"
      using slice_from_negative [OF k(1), of ?h] k(2) by simp
    then show ?thesis
      using True assms(2) k last_n_snoc [OF k(1), of es e]
      by (simp add: add_entry_def add_message_def e k_def [symmetric] Let_def)
  next
    case False
    then have "length (last_n k es) < k"
      using k(2) by simp
    then have "length es < k"
      by (simp add: length_last_n)
    then have "last_n k es = es" "last_n k (es @ [e]) = es @ [e]"
      by (simp_all add: last_n_all)
    then show ?thesis
      using False assms(2)
      by (simp add: add_entry_def add_message_def e k_def [symmetric] Let_def)
  qed
qed

lemma add_messages_last_n:
  assumes "1 \<le> m"
  shows "conversation_history (add_messages es (ShortTermMemory_init m)) = last_n (nat (2 * m)) es
    \<and> max_history (add_messages es (ShortTermMemory_init m)) = m"
proof (induction es rule: rev_induct)
  case Nil
  show ?case
    by (simp add: add_messages_def ShortTermMemory_init_def last_n_def)
next
  case (snoc e es)
  then show ?case
    using assms add_entry_last_n [of "add_messages es (ShortTermMemory_init m)" es e]
    by (simp add: add_messages_def)
qed

text \<open>
  Claim C1, as amended. For every \<open>max_history\<close> of at least 1 and every sequence of
  \<open>add_message\<close> calls on a newly constructed memory, the history holds at most
  \<open>2 * max_history\<close> entries, and they are the most recently appended entries, in the
  order in which they were appended.
\<close>

theorem add_message_keeps_most_recent:
  assumes "1 \<le> m"
  shows "int (length (conversation_history (add_messages es (ShortTermMemory_init m)))) \<le> 2 * m
    \<and> conversation_history (add_messages es (ShortTermMemory_init m))
        = last_n (min (length es) (nat (2 * m))) es"
proof -
  have h: "conversation_history (add_messages es (ShortTermMemory_init m)) = last_n (nat (2 * m)) es"
    using add_messages_last_n [OF assms] by simp
  have "last_n (min (length es) (nat (2 * m))) es = last_n (nat (2 * m)) es"
    by (simp add: last_n_def min_def)
  moreover have "int (length (last_n (nat (2 * m)) es)) \<le> 2 * m"
    using assms by (simp add: length_last_n)
  ultimately show ?thesis
    using h by simp
qed

theorem add_message_keeps_most_recent_witness:
  "(1::int) \<le> 1
   \<and> conversation_history
        (add_messages
           [\<lparr>role = ''user'', content = ''a'', timestamp = ''t1''\<rparr>,
            \<lparr>role = ''assistant'', content = ''b'', timestamp = ''t2''\<rparr>,
            \<lparr>role = ''user'', content = ''c'', timestamp = ''t3''\<rparr>]
           (ShortTermMemory_init 1))
      = [\<lparr>role = ''assistant'', content = ''b'', timestamp = ''t2''\<rparr>,
         \<lparr>role = ''user'', content = ''c'', timestamp = ''t3''\<rparr>]"
  using add_message_keeps_most_recent [of 1
      "[\<lparr>role = ''user'', content = ''a'', timestamp = ''t1''\<rparr>,
        \<lparr>role = ''assistant'', content = ''b'', timestamp = ''t2''\<rparr>,
        \<lparr>role = ''user'', content = ''c'', timestamp = ''t3''\<rparr>]"]
  by (simp add: last_n_def)

text \<open>
  Claim C1 as stated, for every \<open>max_history\<close>, fails. With \<open>max_history = -1\<close> the bound
  \<open>2 * max_history\<close> is negative and no history is that short. With \<open>max_history = 0\<close>
  the slice \<open>history[-0:]\<close> is the whole list, so the entry stays.
\<close>

theorem add_message_bound_counterexample:
  "\<not> int (length (conversation_history
        (add_message ''user'' ''hi'' ''t1'' (ShortTermMemory_init (- 1))))) \<le> 2 * (- 1)
   \<and> \<not> int (length (conversation_history
        (add_message ''user'' ''hi'' ''t1'' (ShortTermMemory_init 0)))) \<le> 2 * 0"
  by (simp add: add_message_def ShortTermMemory_init_def slice_from_def)

text \<open>
  Claim C5, as amended. For every memory and every \<open>num_turns\<close> of at least 1,
  \<open>get_recent_context\<close> returns the text of the last \<open>min (2 * num_turns) length\<close>
  entries, in their order, and leaves the memory as it was; on an empty history the text
  is empty.
\<close>

theorem get_recent_context_last_entries:
  assumes "1 \<le> n"
  shows "get_recent_context n s
      = (join newline (map format_message
           (last_n (nat (min (2 * n) (int (length (conversation_history s)))))
              (conversation_history s))), s)
    \<and> get_recent_context n (s\<lparr>conversation_history := []\<rparr>)
      = ('''', s\<lparr>conversation_history := []\<rparr>)"
proof -
  let ?h = "conversation_history s"
  have "slice_from (- n * 2) ?h = last_n (nat (2 * n)) ?h"
    using assms slice_from_negative [of "nat (2 * n)" ?h] by (simp add: mult.commute)
  moreover have "last_n (nat (min (2 * n) (int (length ?h)))) ?h = last_n (nat (2 * n)) ?h"
    by (simp add: last_n_def min_def)
  ultimately show ?thesis
    by (simp add: get_recent_context_def last_n_def)
qed

theorem get_recent_context_last_entries_witness:
  "(1::int) \<le> 1
   \<and> get_recent_context 1
        \<lparr>max_history = 10, conversation_history =
           [\<lparr>role = ''user'', content = ''a'', timestamp = ''t1''\<rparr>,
            \<lparr>role = ''assistant'', content = ''b'', timestamp = ''t2''\<rparr>,
            \<lparr>role = ''user'', content = ''c'', timestamp = ''t3''\<rparr>]\<rparr>
      = (''Assistant: b'' @ newline @ ''User: c'',
         \<lparr>max_history = 10, conversation_history =
           [\<lparr>role = ''user'', content = ''a'', timestamp = ''t1''\<rparr>,
            \<lparr>role = ''assistant'', content = ''b'', timestamp = ''t2''\<rparr>,
            \<lparr>role = ''user'', content = ''c'', timestamp = ''t3''\<rparr>]\<rparr>)"
  using get_recent_context_last_entries [of 1
      "\<lparr>max_history = 10, conversation_history =
           [\<lparr>role = ''user'', content = ''a'', timestamp = ''t1''\<rparr>,
            \<lparr>role = ''assistant'', content = ''b'', timestamp = ''t2''\<rparr>,
            \<lparr>role = ''user'', content = ''c'', timestamp = ''t3''\<rparr>]\<rparr>"]
  by (simp add: last_n_def format_message_def upper_char_def lower_char_def)

text \<open>
  Claim C5 as stated, for every \<open>num_turns\<close>, fails. With \<open>num_turns = -1\<close> the slice
  \<open>history[2:]\<close> returns the third entry of three, where \<open>min (2 * num_turns) length\<close>
  is negative. With \<open>num_turns = 0\<close> the slice \<open>history[-0:]\<close> returns the whole history,
  where the last \<open>min 0 length = 0\<close> entries are none.
\<close>

theorem get_recent_context_counterexample:
  "fst (get_recent_context (- 1)
        \<lparr>max_history = 10, conversation_history =
           [\<lparr>role = ''user'', content = ''a'', timestamp = ''t1''\<rparr>,
            \<lparr>role = ''assistant'', content = ''b'', timestamp = ''t2''\<rparr>,
            \<lparr>role = ''user'', content = ''c'', timestamp = ''t3''\<rparr>]\<rparr>)
     = ''User: c''
   \<and> join newline (map format_message
        (last_n (nat (min (2 * (- 1)) (int (length
           [\<lparr>role = ''user'', content = ''a'', timestamp = ''t1''\<rparr>,
            \<lparr>role = ''assistant'', content = ''b'', timestamp = ''t2''\<rparr>,
            \<lparr>role = ''user'', content = ''c'', timestamp = ''t3''\<rparr>]))))
           [\<lparr>role = ''user'', content = ''a'', timestamp = ''t1''\<rparr>,
            \<lparr>role = ''assistant'', content = ''b'', timestamp = ''t2''\<rparr>,
            \<lparr>role = ''user'', content = ''c'', timestamp = ''t3''\<rparr>]))
     = ''''
   \<and> fst (get_recent_context 0
        \<lparr>max_history = 10, conversation_history =
           [\<lparr>role = ''user'', content = ''a'', timestamp = ''t1''\<rparr>]\<rparr>)
     = ''User: a''
   \<and> join newline (map format_message
        (last_n (nat (min (2 * 0) (int (length
           [\<lparr>role = ''user'', content = ''a'', timestamp = ''t1''\<rparr>]))))
           [\<lparr>role = ''user'', content = ''a'', timestamp = ''t1''\<rparr>]))
     = ''''"
  by (simp add: get_recent_context_def slice_from_def last_n_def format_message_def
      upper_char_def lower_char_def)

section \<open>Properties of the metrics\<close>

lemma sum_counters_increment: "sum_counters (increment k d) = sum_counters d + 1"
  by (induction d) (auto simp: sum_counters_def)

lemma record_request_day4_ok:
  "counters_ok_day4 m \<Longrightarrow> counters_ok_day4 (record_request_day4 s t k tag m)"
  by (simp add: counters_ok_day4_def record_request_day4_def Let_def sum_counters_increment)

lemma record_request_capstone_ok:
  "counters_ok_capstone m \<Longrightarrow> counters_ok_capstone (record_request_capstone s t k tag m)"
  by (simp add: counters_ok_capstone_def record_request_capstone_def Let_def
      sum_counters_increment)

lemma record_all_day4_ok:
  "counters_ok_day4 m \<Longrightarrow> counters_ok_day4 (record_all_day4 calls m)"
  unfolding record_all_day4_def
  by (induction calls arbitrary: m) (auto simp: record_request_day4_ok)

lemma record_all_capstone_ok:
  "counters_ok_capstone m \<Longrightarrow> counters_ok_capstone (record_all_capstone calls m)"
  unfolding record_all_capstone_def
  by (induction calls arbitrary: m) (auto simp: record_request_capstone_ok)

text \<open>
  Claim C7. After every sequence of \<open>record_request\<close> calls on a new collector, of
  either class, the total count is the success count plus the error count, and the
  per-tag counts sum to at most the total count.
\<close>

theorem record_request_counters:
  "requests_total (record_all_day4 calls MetricsCollector_day4_init)
     = requests_success (record_all_day4 calls MetricsCollector_day4_init)
       + requests_error (record_all_day4 calls MetricsCollector_day4_init)
   \<and> sum_counters (errors_by_type (record_all_day4 calls MetricsCollector_day4_init))
     \<le> requests_total (record_all_day4 calls MetricsCollector_day4_init)
   \<and> requests_total (record_all_capstone calls MetricsCollector_capstone_init)
     = requests_success (record_all_capstone calls MetricsCollector_capstone_init)
       + requests_error (record_all_capstone calls MetricsCollector_capstone_init)
   \<and> sum_counters (tools_used (record_all_capstone calls MetricsCollector_capstone_init))
     \<le> requests_total (record_all_capstone calls MetricsCollector_capstone_init)"
proof -
  have "counters_ok_day4 MetricsCollector_day4_init"
    by (simp add: counters_ok_day4_def MetricsCollector_day4_init_def sum_counters_def)
  then have d: "counters_ok_day4 (record_all_day4 calls MetricsCollector_day4_init)"
    by (rule record_all_day4_ok)
  have "counters_ok_capstone MetricsCollector_capstone_init"
    by (simp add: counters_ok_capstone_def MetricsCollector_capstone_init_def sum_counters_def)
  then have c: "counters_ok_capstone (record_all_capstone calls MetricsCollector_capstone_init)"
    by (rule record_all_capstone_ok)
  show ?thesis
    using d c by (simp add: counters_ok_day4_def counters_ok_capstone_def)
qed

lemma record_request_day4_times:
  "request_times (record_request_day4 s t k tag m) = request_times m @ [t]
   \<and> requests_total (record_request_day4 s t k tag m) = requests_total m + 1"
  by (simp add: record_request_day4_def Let_def)

lemma record_all_day4_times:
  "request_times (record_all_day4 calls m) = request_times m @ map (\<lambda>c. fst (snd c)) calls
   \<and> requests_total (record_all_day4 calls m) = requests_total m + int (length calls)"
  unfolding record_all_day4_def
  by (induction calls arbitrary: m) (auto simp: record_request_day4_times)

lemma p95_index: "0 < n \<Longrightarrow> nat \<lfloor>real n * 0.95\<rfloor> < n"
  by (simp add: floor_less_iff nat_less_iff)

lemma get_stats_day4_percentiles:
  assumes "requests_total m \<noteq> 0"
  shows "\<exists>st. fst (get_stats_day4 m) = Snapshot st
    \<and> p50_response_time_seconds st = format_fixed 3 (p50 (sort (request_times m)))
    \<and> p95_response_time_seconds st = format_fixed 3 (p95 (sort (request_times m)))"
  using assms by (simp add: get_stats_day4_def Let_def)

lemma digits_300: "digits 300 = ''300''" and digits_500: "digits 500 = ''500''"
  by (simp_all add: digits.simps [of 300] digits.simps [of 500] digits.simps [of 30]
        digits.simps [of 50] digits.simps [of 3] digits.simps [of 5])

lemma format_fixed_examples:
  "format_fixed 3 0.3 = ''0.300''" "format_fixed 3 0.5 = ''0.500''"
  "format_fixed 3 (1 / 2) = ''0.500''"
  by (simp_all add: format_fixed_def round_half_even_def Let_def digits_300 digits_500)

text \<open>
  Claim C4, as amended. For every non-empty sequence of recorded requests the snapshot
  of \<open>get_stats\<close> holds, each written with three decimals, the element of the ascending
  sorted latencies at index \<open>len // 2\<close> as p50 and the element at index
  \<open>int(len * 0.95)\<close> as p95, both indices being inside the list. For the latencies
  \<open>[0.1, 0.2, 0.3, 0.4, 0.5]\<close> p50 is \<open>0.3\<close> and p95 is \<open>0.5\<close>; for one latency both are
  that latency. For no latency the two expressions give \<open>0\<close>, but the snapshot of a
  collector without a recorded request is the entry "No requests recorded" and holds no
  percentile.
\<close>

theorem get_stats_percentiles:
  assumes "calls \<noteq> []"
  shows "(\<exists>st. fst (get_stats_day4 (record_all_day4 calls MetricsCollector_day4_init)) = Snapshot st
      \<and> p50_response_time_seconds st
          = format_fixed 3 (sort (map (\<lambda>c. fst (snd c)) calls) ! (length calls div 2))
      \<and> p95_response_time_seconds st
          = format_fixed 3 (sort (map (\<lambda>c. fst (snd c)) calls) ! nat \<lfloor>real (length calls) * 0.95\<rfloor>))
    \<and> length calls div 2 < length calls
    \<and> nat \<lfloor>real (length calls) * 0.95\<rfloor> < length calls
    \<and> p50 (sort [0.1, 0.2, 0.3, 0.4, 0.5]) = 0.3
    \<and> p95 (sort [0.1, 0.2, 0.3, 0.4, 0.5]) = 0.5
    \<and> p50 (sort [t]) = t \<and> p95 (sort [t]) = t
    \<and> p50 (sort []) = 0 \<and> p95 (sort []) = 0
    \<and> fst (get_stats_day4 MetricsCollector_day4_init) = No_requests_recorded"
proof -
  let ?m = "record_all_day4 calls MetricsCollector_day4_init"
  let ?ts = "map (\<lambda>c. fst (snd c)) calls"
  have n: "0 < length calls"
    using assms by simp
  have ts: "request_times ?m = ?ts" and total: "requests_total ?m = int (length calls)"
    using record_all_day4_times [of calls MetricsCollector_day4_init]
    by (simp_all add: MetricsCollector_day4_init_def)
  have "requests_total ?m \<noteq> 0"
    using total n by simp
  then obtain st where st: "fst (get_stats_day4 ?m) = Snapshot st"
    "p50_response_time_seconds st = format_fixed 3 (p50 (sort (request_times ?m)))"
    "p95_response_time_seconds st = format_fixed 3 (p95 (sort (request_times ?m)))"
    using get_stats_day4_percentiles by blast
  have "sort ?ts \<noteq> []"
    using assms by (metis length_sort length_map length_0_conv)
  then have "p50 (sort ?ts) = sort ?ts ! (length calls div 2)"
    "p95 (sort ?ts) = sort ?ts ! nat \<lfloor>real (length calls) * 0.95\<rfloor>"
    by (simp_all add: p50_def p95_def)
  then have first: "\<exists>st. fst (get_stats_day4 ?m) = Snapshot st
      \<and> p50_response_time_seconds st = format_fixed 3 (sort ?ts ! (length calls div 2))
      \<and> p95_response_time_seconds st
          = format_fixed 3 (sort ?ts ! nat \<lfloor>real (length calls) * 0.95\<rfloor>)"
    using st ts by auto
  have idx: "length calls div 2 < length calls" "nat \<lfloor>real (length calls) * 0.95\<rfloor> < length calls"
    using n p95_index [OF n] by simp_all
  have ex: "p50 (sort [0.1, 0.2, 0.3, 0.4, 0.5]) = 0.3" "p95 (sort [0.1, 0.2, 0.3, 0.4, 0.5]) = 0.5"
    by (simp_all add: p50_def p95_def)
  have one: "p50 (sort [t]) = t" "p95 (sort [t]) = t"
    by (simp_all add: p50_def p95_def)
  have none: "p50 (sort []) = 0" "p95 (sort []) = 0"
    by (simp_all add: p50_def p95_def)
  have init: "fst (get_stats_day4 MetricsCollector_day4_init) = No_requests_recorded"
    by (simp add: get_stats_day4_def MetricsCollector_day4_init_def)
  show ?thesis
    using first idx ex one none init by blast
qed

theorem get_stats_percentiles_witness:
  "[(True, 0.3, 0, None), (True, 0.1, 0, None), (False, 0.5, 0, Some ''ValueError''),
    (True, 0.2, 0, None), (True, 0.4, 0, None)] \<noteq> ([] :: sample list)
   \<and> (\<exists>st. fst (get_stats_day4 (record_all_day4
          [(True, 0.3, 0, None), (True, 0.1, 0, None), (False, 0.5, 0, Some ''ValueError''),
           (True, 0.2, 0, None), (True, 0.4, 0, None)] MetricsCollector_day4_init)) = Snapshot st
      \<and> p50_response_time_seconds st = ''0.300''
      \<and> p95_response_time_seconds st = ''0.500'')"
  using get_stats_percentiles [of
      "[(True, 0.3, 0, None), (True, 0.1, 0, None), (False, 0.5, 0, Some ''ValueError''),
        (True, 0.2, 0, None), (True, 0.4, 0, None)]"]
  by (simp add: format_fixed_examples)

text \<open>
  Claim C4 as stated fails for length 0: a collector whose latency list is empty has
  recorded no request, and its snapshot is the entry "No requests recorded", not a
  percentile of \<open>0\<close>.
\<close>

theorem get_stats_empty_counterexample:
  "request_times MetricsCollector_day4_init = []
   \<and> fst (get_stats_day4 MetricsCollector_day4_init) = No_requests_recorded
   \<and> (\<forall>st. No_requests_recorded \<noteq> Snapshot (st :: Stats_day4))"
  by (simp add: get_stats_day4_def MetricsCollector_day4_init_def)

text \<open>
  Claim C10. \<open>get_stats\<close>, of either class, leaves the collector as it was: the counters,
  the per-tag counts and the list of latencies; a second call with no \<open>record_request\<close>
  between the two returns the same snapshot.
\<close>

theorem get_stats_read_only:
  "snd (get_stats_day4 m) = m
   \<and> get_stats_day4 (snd (get_stats_day4 m)) = get_stats_day4 m
   \<and> snd (get_stats_capstone c) = c
   \<and> get_stats_capstone (snd (get_stats_capstone c)) = get_stats_capstone c"
proof -
  have d: "snd (get_stats_day4 m) = m"
    by (simp add: get_stats_day4_def Let_def)
  have c: "snd (get_stats_capstone c) = c"
    by (simp add: get_stats_capstone_def Let_def)
  show ?thesis
    by (simp add: d c)
qed

section \<open>Properties of the long-term memory\<close>

lemma map_of_dict_set_same: "map_of (dict_set k v d) k = Some v"
  by (induction d) auto

lemma map_of_dict_set_other: "k' \<noteq> k \<Longrightarrow> map_of (dict_set k v d) k' = map_of d k'"
  by (induction d) auto

text \<open>
  Claim C6, as amended. For every user id that the store does not hold,
  \<open>get_user_preferences\<close>, of either class, returns an empty mapping and creates an
  empty record for the user in the store in memory; it does not write the file and
  prints nothing.
\<close>

theorem get_user_preferences_unseen:
  assumes "\<not> has_key uid (users (memory st))"
  shows "fst (get_user_preferences_day3 now uid st) = []
    \<and> map_of (users (memory (snd (get_user_preferences_day3 now uid st)))) uid
        = Some \<lparr>preferences = [], created_at = Some now, last_updated = None\<rparr>
    \<and> disk (snd (get_user_preferences_day3 now uid st)) = disk st
    \<and> printed (snd (get_user_preferences_day3 now uid st)) = printed st
    \<and> fst (get_user_preferences_capstone uid st) = []
    \<and> map_of (users (memory (snd (get_user_preferences_capstone uid st)))) uid
        = Some \<lparr>preferences = [], created_at = None, last_updated = None\<rparr>
    \<and> disk (snd (get_user_preferences_capstone uid st)) = disk st
    \<and> printed (snd (get_user_preferences_capstone uid st)) = printed st"
  using assms
  by (simp add: get_user_preferences_day3_def get_user_preferences_capstone_def Let_def
      set_users_def user_preferences_def map_of_dict_set_same)

theorem get_user_preferences_unseen_witness:
  "\<not> has_key ''alice'' (users (memory (LongTermMemory_init (Some initialize_memory))))
   \<and> get_user_preferences_day3 ''2024-01-01T00:00:00'' ''alice''
        (LongTermMemory_init (Some initialize_memory))
      = ([],
         \<lparr>memory = \<lparr>users = [(''alice'',
             \<lparr>preferences = [], created_at = Some ''2024-01-01T00:00:00'',
              last_updated = None\<rparr>)]\<rparr>,
          disk = Some \<lparr>users = []\<rparr>, printed = []\<rparr>)"
  using get_user_preferences_unseen [of "''alice''" "LongTermMemory_init (Some initialize_memory)"
      "''2024-01-01T00:00:00''"]
  by (simp add: get_user_preferences_day3_def LongTermMemory_init_def initialize_memory_def
      has_key_def set_users_def user_preferences_def Let_def)

text \<open>
  Claim C6 as stated fails in its last part: after \<open>get_user_preferences\<close> for an
  unseen user the store in memory holds the user's record and the file does not.
\<close>

theorem get_user_preferences_not_persisted_counterexample:
  "has_key ''alice'' (users (memory (snd (get_user_preferences_day3 ''2024-01-01T00:00:00''
        ''alice'' (LongTermMemory_init (Some initialize_memory))))))
   \<and> disk (snd (get_user_preferences_day3 ''2024-01-01T00:00:00'' ''alice''
        (LongTermMemory_init (Some initialize_memory)))) = Some \<lparr>users = []\<rparr>
   \<and> has_key ''alice'' (users (memory (snd (get_user_preferences_capstone
        ''alice'' (LongTermMemory_init (Some initialize_memory))))))
   \<and> disk (snd (get_user_preferences_capstone ''alice''
        (LongTermMemory_init (Some initialize_memory)))) = Some \<lparr>users = []\<rparr>"
  by (simp add: get_user_preferences_day3_def get_user_preferences_capstone_def
      LongTermMemory_init_def initialize_memory_def has_key_def set_users_def Let_def)

section \<open>Properties of the preference extraction\<close>

text \<open>
  Claim C9, as amended. The Day 3 extraction is a function of the message alone; it
  maps "I like Python programming." to \<open>("favorite_language", "Python")\<close>, "My favorite
  color is blue." to \<open>("favorite_color", "blue")\<close> and "I went to the store." to nothing,
  and where two phrases match the one checked first wins. The capstone extraction, which
  knows the triggers "i like" and "i prefer" and the two languages only, maps the first
  input to the same pair and the other two to nothing.
\<close>

theorem extract_preference_examples:
  "extract_preference_day3 ''I like Python programming.'' = Some (''favorite_language'', ''Python'')
   \<and> extract_preference_day3 ''My favorite color is blue.'' = Some (''favorite_color'', ''blue'')
   \<and> extract_preference_day3 ''I went to the store.'' = None
   \<and> extract_preference_day3 ''I prefer JavaScript to Python as a language''
      = Some (''favorite_language'', ''Python'')
   \<and> extract_preference_day3 ''My favorite color is blue, not red''
      = Some (''favorite_color'', ''red'')
   \<and> extract_preference_day3 ''I like the color of the Python language''
      = Some (''favorite_language'', ''Python'')
   \<and> extract_preference_capstone ''I like Python programming.''
      = Some (''favorite_language'', ''Python'')
   \<and> extract_preference_capstone ''I prefer JavaScript to Python''
      = Some (''favorite_language'', ''Python'')
   \<and> extract_preference_capstone ''My favorite color is blue.'' = None
   \<and> extract_preference_capstone ''I went to the store.'' = None"
  by (simp add: extract_preference_day3_def extract_preference_capstone_def lower_def
      lower_char_def colors_def)

text \<open>
  Claim C9 as stated fails for the capstone agent's extraction, which has no colours:
  "My favorite color is blue." gives no pair.
\<close>

theorem extract_preference_capstone_counterexample:
  "extract_preference_capstone ''My favorite color is blue.''
     \<noteq> Some (''favorite_color'', ''blue'')"
  by (simp add: extract_preference_capstone_def lower_def lower_char_def)

section \<open>Properties of the calculator\<close>

lemma digits_small: "n < 10 \<Longrightarrow> digits n = [''0123456789'' ! n]"
  by (simp add: digits.simps [of n])

lemma digits_step: "10 \<le> n \<Longrightarrow> digits n = digits (n div 10) @ [''0123456789'' ! (n mod 10)]"
  by (simp add: digits.simps [of n])

lemmas eval_defs = eval_fragment_def is_digit_def flush_def new_frame_def operand_def next_term_def
  next_factor_def frame_value_def literal_value_def digit_value_def

lemma sanitize_example: "sanitize ''Calculate 25 * 4 + 10'' = '' 25 * 4 + 10''"
  by (simp add: sanitize_def allowed_char_def is_space_def)

lemma eval_fragment_example: "eval_fragment '' 25 * 4 + 10'' = Value 110"
  by (simp add: eval_defs)

lemma eval_fragment_errors:
  "eval_fragment '''' = Syntax_error"
  "eval_fragment '' 2 +'' = Syntax_error"
  "eval_fragment '' (2 + 3'' = Syntax_error"
  "eval_fragment ''1/0'' = Zero_division"
  "eval_fragment '' 10 / (5 - 5)'' = Zero_division"
  "eval_fragment ''7 // 0'' = Zero_division"
  by (simp_all add: eval_defs)

lemma sanitize_errors:
  "sanitize ''Calculate 2 +'' = '' 2 +''"
  "sanitize ''Calculate (2 + 3'' = '' (2 + 3''"
  "sanitize ''1/0'' = ''1/0''"
  "sanitize ''Compute 10 / (5 - 5)'' = '' 10 / (5 - 5)''"
  "sanitize ''7 // 0'' = ''7 // 0''"
  by (simp_all add: sanitize_def allowed_char_def is_space_def)

lemma sanitize_idem: "sanitize (sanitize s) = sanitize s"
  by (simp add: sanitize_def)

lemma sanitize_count:
  "count_list (sanitize s) c = (if allowed_char c then count_list s c else 0)"
  by (induction s) (auto simp: sanitize_def)

lemma sanitize_rejected: "sanitize (filter (\<lambda>c. \<not> allowed_char c) s) = []"
  by (induction s) (auto simp: sanitize_def)

lemma calculator_execute_cases:
  "(\<exists>r. py_eval E (sanitize s) = Inr r \<and> calculator_execute E s = ''Result: '' @ r)
   \<or> (\<exists>e. py_eval E (sanitize s) = Inl e \<and> calculator_execute E s = ''Error: '' @ e)"
  by (cases "py_eval E (sanitize s)") (simp_all add: calculator_execute_def)

subsection \<open>A number divided by zero\<close>

lemma digit_char: "m < 10 \<Longrightarrow> is_digit (''0123456789'' ! m)"
  unfolding is_digit_def by (rule nth_mem) simp

lemma digit_char_value: "m < 10 \<Longrightarrow> digit_value (''0123456789'' ! m) = int m"
proof -
  assume "m < 10"
  then have "m \<in> {0, 1, 2, 3, 4, 5, 6, 7, 8, 9}"
    by auto
  then show ?thesis
    by (auto simp: digit_value_def)
qed

lemma digits_chars: "list_all is_digit (digits n)"
proof (induction n rule: digits.induct)
  case (1 n)
  show ?case
  proof (cases "n < 10")
    case True
    then show ?thesis
      by (simp add: digits_small digit_char)
  next
    case False
    then have "list_all is_digit (digits (n div 10))"
      using "1" by simp
    then show ?thesis
      using False by (simp add: digits_step digit_char)
  qed
qed

lemma digits_not_empty: "digits n \<noteq> []"
  by (cases "n < 10") (simp_all add: digits_small digits_step)

lemma digits_value: "foldl (\<lambda>a d. 10 * a + digit_value d) 0 (digits n) = int n"
proof (induction n rule: digits.induct)
  case (1 n)
  show ?case
  proof (cases "n < 10")
    case True
    then show ?thesis
      by (simp add: digits_small digit_char_value)
  next
    case False
    then have "foldl (\<lambda>a d. 10 * a + digit_value d) 0 (digits (n div 10)) = int (n div 10)"
      using "1" by simp
    then show ?thesis
      using False by (simp add: digits_step digit_char_value zdiv_int zmod_int)
  qed
qed

lemma hd_digits: "0 < n \<Longrightarrow> hd (digits n) \<noteq> CHR ''0''"
proof (induction n rule: digits.induct)
  case (1 n)
  show ?case
  proof (cases "n < 10")
    case True
    then have "n \<in> {1, 2, 3, 4, 5, 6, 7, 8, 9}"
      using "1.prems" by auto
    then show ?thesis
      by (auto simp: digits_small)
  next
    case False
    then have "hd (digits (n div 10)) \<noteq> CHR ''0''"
      using "1.IH" by simp
    then show ?thesis
      using False by (simp add: digits_step digits_not_empty)
  qed
qed

lemma literal_value_digits: "literal_value (digits n) = Some (int n)"
proof (cases "n = 0")
  case True
  then show ?thesis
    by (simp add: literal_value_def digits_small digit_value_def)
next
  case False
  then show ?thesis
    using hd_digits [of n] by (simp add: literal_value_def digits_not_empty digits_value)
qed

lemma length_digits: "n < 10 ^ k \<Longrightarrow> 0 < k \<Longrightarrow> length (digits n) \<le> k"
proof (induction n arbitrary: k rule: digits.induct)
  case (1 n)
  show ?case
  proof (cases "n < 10")
    case True
    then show ?thesis
      using "1.prems" by (simp add: digits_small)
  next
    case False
    obtain j where k: "k = Suc j"
      using "1.prems"(2) by (cases k) auto
    have "0 < j"
      using False "1.prems"(1) k by (cases j) auto
    moreover have "n div 10 < 10 ^ j"
      using "1.prems"(1) k by (simp add: less_mult_imp_div_less mult.commute)
    ultimately have "length (digits (n div 10)) \<le> j"
      using "1.IH" [of j] False by simp
    then show ?thesis
      using False k by (simp add: digits_step)
  qed
qed

lemma tokenize_digits:
  "list_all is_digit ds \<Longrightarrow> tokenize cur (ds @ rest) = tokenize (cur @ ds) rest"
  by (induction ds arbitrary: cur) simp_all

lemma is_digit_allowed: "is_digit c \<Longrightarrow> allowed_char c"
  by (auto simp: is_digit_def allowed_char_def)

lemma sanitize_digits: "list_all is_digit ds \<Longrightarrow> sanitize ds = ds"
  by (induction ds) (simp_all add: sanitize_def is_digit_allowed)

lemma eval_fragment_divided_by_zero:
  assumes "n < 10 ^ 98"
  shows "eval_fragment (digits n @ ''/0'') = Zero_division"
proof -
  have len: "length (digits n @ ''/0'') \<le> 100"
    using length_digits [OF assms] by simp
  have "tokenize [] (digits n @ ''/0'') = tokenize (digits n) ''/0''"
    using tokenize_digits [OF digits_chars, of "[]" n "''/0''"] by simp
  then have tok: "tokenize [] (digits n @ ''/0'') = Some [NUM (digits n), SLASH, NUM ''0'']"
    by (simp add: flush_def digits_not_empty is_digit_def)
  have zero: "literal_value ''0'' = Some 0"
    by (simp add: literal_value_def digit_value_def)
  have "run None [new_frame] [NUM (digits n), SLASH, NUM ''0'']
      = Some (Some Zero_divisor, num_add (IntV 0) FloatV)"
    by (simp add: new_frame_def operand_def next_factor_def frame_value_def
        literal_value_digits zero)
  then show ?thesis
    using len tok by (simp add: eval_fragment_def)
qed

lemma calculator_divided_by_zero:
  assumes "n < 10 ^ 98"
  shows "calculator_execute E (digits n @ ''/0'') = ''Error: '' @ error_text E (digits n @ ''/0'')"
proof -
  have "sanitize (digits n @ ''/0'') = digits n @ ''/0''"
    using sanitize_digits [OF digits_chars, of n]
    by (simp add: sanitize_def allowed_char_def is_space_def)
  then show ?thesis
    using eval_fragment_divided_by_zero [OF assms]
    by (simp add: calculator_execute_def py_eval_def)
qed

text \<open>
  Claim C8. For every input the calculator keeps the characters of the set
  \<open>[0-9+\-*/().\s]\<close>, each as often as the input has it, and no other character, and
  the result depends on what is kept only. The input "Calculate 25 * 4 + 10" leaves
  " 25 * 4 + 10" and gives "Result: 110". A failure of the evaluation gives a text that
  starts with "Error: " and is never raised: so for every input with no valid character,
  for malformed expressions, for every number divided by zero and for other divisions
  by zero; and whatever the evaluation does, the tool returns "Result: " and the value
  or "Error: " and the text of the exception.
\<close>

theorem calculator_execute_returns_text:
  "calculator_execute E s = calculator_execute E (sanitize s)
   \<and> (\<forall>c. count_list (sanitize s) c = (if allowed_char c then count_list s c else 0))
   \<and> sanitize ''Calculate 25 * 4 + 10'' = '' 25 * 4 + 10''
   \<and> calculator_execute E ''Calculate 25 * 4 + 10'' = ''Result: 110''
   \<and> calculator_execute E (filter (\<lambda>c. \<not> allowed_char c) s) = ''Error: '' @ error_text E ''''
   \<and> calculator_execute E ''Calculate 2 +'' = ''Error: '' @ error_text E '' 2 +''
   \<and> calculator_execute E ''Calculate (2 + 3'' = ''Error: '' @ error_text E '' (2 + 3''
   \<and> (n < 10 ^ 98 \<longrightarrow>
        calculator_execute E (digits n @ ''/0'') = ''Error: '' @ error_text E (digits n @ ''/0''))
   \<and> calculator_execute E ''1/0'' = ''Error: '' @ error_text E ''1/0''
   \<and> calculator_execute E ''Compute 10 / (5 - 5)'' = ''Error: '' @ error_text E '' 10 / (5 - 5)''
   \<and> calculator_execute E ''7 // 0'' = ''Error: '' @ error_text E ''7 // 0''
   \<and> ((\<exists>r. py_eval E (sanitize s) = Inr r \<and> calculator_execute E s = ''Result: '' @ r)
      \<or> (\<exists>e. py_eval E (sanitize s) = Inl e \<and> calculator_execute E s = ''Error: '' @ e))"
proof -
  have a: "calculator_execute E s = calculator_execute E (sanitize s)"
    by (simp add: calculator_execute_def sanitize_idem)
  have b: "\<forall>c. count_list (sanitize s) c = (if allowed_char c then count_list s c else 0)"
    using sanitize_count by blast
  have c: "calculator_execute E ''Calculate 25 * 4 + 10'' = ''Result: 110''"
    by (simp add: calculator_execute_def py_eval_def sanitize_example eval_fragment_example
        str_int_def digits_small digits_step)
  have d: "calculator_execute E (filter (\<lambda>c. \<not> allowed_char c) s) = ''Error: '' @ error_text E ''''"
    by (simp add: calculator_execute_def py_eval_def sanitize_rejected eval_fragment_errors)
  have e: "calculator_execute E ''Calculate 2 +'' = ''Error: '' @ error_text E '' 2 +''"
    "calculator_execute E ''Calculate (2 + 3'' = ''Error: '' @ error_text E '' (2 + 3''"
    "calculator_execute E ''1/0'' = ''Error: '' @ error_text E ''1/0''"
    "calculator_execute E ''Compute 10 / (5 - 5)'' = ''Error: '' @ error_text E '' 10 / (5 - 5)''"
    "calculator_execute E ''7 // 0'' = ''Error: '' @ error_text E ''7 // 0''"
    by (simp_all add: calculator_execute_def py_eval_def sanitize_errors eval_fragment_errors)
  have f: "n < 10 ^ 98 \<longrightarrow>
        calculator_execute E (digits n @ ''/0'') = ''Error: '' @ error_text E (digits n @ ''/0'')"
    using calculator_divided_by_zero by blast
  show ?thesis
    by (intro conjI a b c d e f sanitize_example calculator_execute_cases)
qed

theorem calculator_execute_returns_text_witness:
  "(25::nat) < 10 ^ 98
   \<and> calculator_execute \<lparr>outside = (\<lambda>s. Inr ''42''), error_text = (\<lambda>s. ''division by zero'')\<rparr> ''25/0''
      = ''Error: division by zero''"
  using calculator_execute_returns_text [of
      "\<lparr>outside = (\<lambda>s. Inr ''42''), error_text = (\<lambda>s. ''division by zero'')\<rparr>" "''''" 25]
  by (simp add: digits_small digits_step)

section \<open>Properties of the capstone agent\<close>

lemma record_request_capstone_total:
  "requests_total (record_request_capstone s t k tag m) = requests_total m + 1"
  by (simp add: record_request_capstone_def Let_def)

lemma record_request_capstone_error:
  "requests_error (record_request_capstone s t k tag m)
     = requests_error m + (if s then 0 else 1)"
  by (simp add: record_request_capstone_def Let_def)

lemma chat_try_metrics:
  "metrics (snd (chat_try env message a))
     = (let m1 = (case select_tool message of
                    Some t \<Rightarrow> record_request_capstone True 0 0 (Some (tool_name t)) (metrics a)
                  | None \<Rightarrow> metrics a)
        in case fst (chat_try env message a) of
             Inl e \<Rightarrow> m1
           | Inr response_text \<Rightarrow>
               record_request_capstone True (record_time env - start_time env)
                 (int (count_words message) + int (count_words response_text))
                 (map_option tool_name (select_tool message)) m1)"
  by (simp add: chat_try_def Let_def split: prod.splits sum.splits option.splits)

lemma chat_try_result:
  "(\<exists>p t. generate_content env p = Inr t \<and> fst (chat_try env message a) = Inr t)
   \<or> (\<exists>p e. generate_content env p = Inl e \<and> fst (chat_try env message a) = Inl e)"
  unfolding chat_try_def Let_def
  by (auto split: prod.splits sum.splits option.splits)

lemma chat_requests_total:
  "requests_total (metrics (snd (chat env message a)))
     = requests_total (metrics a) + (if select_tool message = None then 1 else 2)"
proof -
  let ?a = "a\<lparr>request_id := Some (request_uuid env)\<rparr>"
  obtain r a' where r: "chat_try env message ?a = (r, a')"
    by (cases "chat_try env message ?a")
  have m: "metrics a' = (let m1 = (case select_tool message of
                    Some t \<Rightarrow> record_request_capstone True 0 0 (Some (tool_name t)) (metrics a)
                  | None \<Rightarrow> metrics a)
        in case r of
             Inl e \<Rightarrow> m1
           | Inr response_text \<Rightarrow>
               record_request_capstone True (record_time env - start_time env)
                 (int (count_words message) + int (count_words response_text))
                 (map_option tool_name (select_tool message)) m1)"
    using chat_try_metrics [of env message ?a] r
    by (cases "select_tool message"; cases r) (simp_all add: Let_def)
  show ?thesis
    by (cases r; cases "select_tool message")
      (simp_all add: chat_def r m record_request_capstone_total)
qed

lemma select_tool_example:
  "select_tool ''Calculate 25 * 4 + 10'' = Some (Calculator ''Calculate 25 * 4 + 10'')"
  by (simp add: select_tool_def lower_def lower_char_def)

text \<open>
  Claim C2 on the code. For the message "Calculate 25 * 4 + 10", which selects the
  calculator, one call of \<open>chat\<close> on a new agent records two samples, whether the
  completion call succeeds or fails: the total request count is 2, not 1.
\<close>

theorem chat_counts_tool_request_twice:
  "requests_total (metrics (snd (chat env ''Calculate 25 * 4 + 10''
      (CapstoneAgent_init ''alice'' None)))) = 2"
  using chat_requests_total [of env "''Calculate 25 * 4 + 10''" "CapstoneAgent_init ''alice'' None"]
  by (simp add: select_tool_example CapstoneAgent_init_def MetricsCollector_capstone_init_def)

lemma chat_result:
  "(\<exists>p t. generate_content env p = Inr t \<and> fst (chat env message a) = t
      \<and> requests_error (metrics (snd (chat env message a))) = requests_error (metrics a))
   \<or> (\<exists>p e. generate_content env p = Inl e \<and> fst (chat env message a) = ''Error: '' @ e
      \<and> requests_error (metrics (snd (chat env message a))) = requests_error (metrics a) + 1)"
proof -
  let ?a = "a\<lparr>request_id := Some (request_uuid env)\<rparr>"
  obtain r a' where r: "chat_try env message ?a = (r, a')"
    by (cases "chat_try env message ?a")
  have m: "metrics a' = (let m1 = (case select_tool message of
                    Some t \<Rightarrow> record_request_capstone True 0 0 (Some (tool_name t)) (metrics a)
                  | None \<Rightarrow> metrics a)
        in case r of
             Inl e \<Rightarrow> m1
           | Inr response_text \<Rightarrow>
               record_request_capstone True (record_time env - start_time env)
                 (int (count_words message) + int (count_words response_text))
                 (map_option tool_name (select_tool message)) m1)"
    using chat_try_metrics [of env message ?a] r
    by (cases "select_tool message"; cases r) (simp_all add: Let_def)
  show ?thesis
  proof (cases r)
    case (Inl e)
    then obtain p where "generate_content env p = Inl e"
      using chat_try_result [of env message ?a] r by auto
    moreover have "fst (chat env message a) = ''Error: '' @ e"
      by (simp add: chat_def r Inl)
    moreover have "requests_error (metrics (snd (chat env message a))) = requests_error (metrics a) + 1"
      by (cases "select_tool message")
        (simp_all add: chat_def r Inl m record_request_capstone_error)
    ultimately show ?thesis by blast
  next
    case (Inr t)
    then obtain p where "generate_content env p = Inr t"
      using chat_try_result [of env message ?a] r by auto
    moreover have "fst (chat env message a) = t"
      by (simp add: chat_def r Inr)
    moreover have "requests_error (metrics (snd (chat env message a))) = requests_error (metrics a)"
      by (cases "select_tool message")
        (simp_all add: chat_def r Inr m record_request_capstone_error)
    ultimately show ?thesis by blast
  qed
qed

lemma save_memory_memory: "memory (save_memory w st) = memory st"
  by (cases w) (simp_all add: save_memory_def)

lemma chat_try_write_result:
  "fst (chat_try (env\<lparr>write_result := w\<rparr>) message a) = fst (chat_try env message a)"
  by (simp add: chat_try_def Let_def get_user_preferences_capstone_def
      save_preference_capstone_def user_preferences_def set_users_def save_memory_memory
      split: prod.splits sum.splits option.splits)

lemma chat_write_result:
  "fst (chat (env\<lparr>write_result := w\<rparr>) message a) = fst (chat env message a)"
proof -
  let ?a = "a\<lparr>request_id := Some (request_uuid env)\<rparr>"
  have "fst (chat_try (env\<lparr>write_result := w\<rparr>) message ?a) = fst (chat_try env message ?a)"
    by (rule chat_try_write_result)
  then show ?thesis
    by (cases "chat_try (env\<lparr>write_result := w\<rparr>) message ?a"; cases "chat_try env message ?a")
      (auto simp: chat_def split: sum.splits)
qed

lemma record_request_day4_error:
  "requests_error (record_request_day4 s t k tag m) = requests_error m + (if s then 0 else 1)"
  by (simp add: record_request_day4_def Let_def)

lemma observable_chat_result:
  "(\<exists>t. obs_generate_content oenv message = Inr t \<and> fst (observable_chat oenv message uid b) = t
      \<and> requests_error (obs_metrics (snd (observable_chat oenv message uid b)))
          = requests_error (obs_metrics b))
   \<or> (\<exists>ty e. obs_generate_content oenv message = Inl (ty, e)
      \<and> fst (observable_chat oenv message uid b) = ''Error: '' @ e
      \<and> requests_error (obs_metrics (snd (observable_chat oenv message uid b)))
          = requests_error (obs_metrics b) + 1)"
proof (cases "obs_generate_content oenv message")
  case (Inl x)
  then show ?thesis
    by (cases x) (simp add: observable_chat_def Let_def record_request_day4_error)
next
  case (Inr t)
  then show ?thesis
    by (simp add: observable_chat_def Let_def record_request_day4_error)
qed

text \<open>
  Claim C3. For every message, every agent and whatever the outside does, \<open>chat\<close> of
  the capstone agent and of the observable agent returns a text: the text of the
  completion, with no error counted, or, when the completion call raises, "Error: "
  and the text of the exception, with exactly one error counted. A failure of the
  calculator is a text inside the prompt, and a failed write of the memory file changes
  nothing in what \<open>chat\<close> returns.
\<close>

theorem chat_returns_text:
  "((\<exists>p t. generate_content env p = Inr t \<and> fst (chat env message a) = t
        \<and> requests_error (metrics (snd (chat env message a))) = requests_error (metrics a))
     \<or> (\<exists>p e. generate_content env p = Inl e \<and> fst (chat env message a) = ''Error: '' @ e
        \<and> requests_error (metrics (snd (chat env message a))) = requests_error (metrics a) + 1))
   \<and> ((\<exists>t. obs_generate_content oenv message = Inr t
        \<and> fst (observable_chat oenv message uid b) = t
        \<and> requests_error (obs_metrics (snd (observable_chat oenv message uid b)))
            = requests_error (obs_metrics b))
     \<or> (\<exists>ty e. obs_generate_content oenv message = Inl (ty, e)
        \<and> fst (observable_chat oenv message uid b) = ''Error: '' @ e
        \<and> requests_error (obs_metrics (snd (observable_chat oenv message uid b)))
            = requests_error (obs_metrics b) + 1))
   \<and> fst (chat (env\<lparr>write_result := Write_failed err left\<rparr>) message a)
      = fst (chat (env\<lparr>write_result := Written\<rparr>) message a)
   \<and> ((\<exists>r. run_tool (evaluator env) (Calculator message) = ''Result: '' @ r)
     \<or> (\<exists>e. run_tool (evaluator env) (Calculator message) = ''Error: '' @ e))"
proof -
  have "fst (chat (env\<lparr>write_result := Write_failed err left\<rparr>) message a)
      = fst (chat (env\<lparr>write_result := Written\<rparr>) message a)"
    using chat_write_result [where env = env and w = "Write_failed err left"]
      chat_write_result [where env = env and w = Written] by simp
  moreover have "(\<exists>r. run_tool (evaluator env) (Calculator message) = ''Result: '' @ r)
     \<or> (\<exists>e. run_tool (evaluator env) (Calculator message) = ''Error: '' @ e)"
    using calculator_execute_cases [of "evaluator env" message] by auto
  ultimately show ?thesis
    using chat_result [of env message a] observable_chat_result [of oenv message uid b]
    by blast
qed

end
